theory Spec2Isabelle
  imports Complex_Main "HOL-Library.Log_Nat"
begin

section \<open>Python values\<close>

text \<open>
  The program is \<^verbatim>\<open>src/main.py\<close>. Python integers are \<^typ>\<open>int\<close>. A Python float is a
  rational number, and every float operation is written as the exact operation followed by
  a rounding function \<open>rnd\<close>, a parameter of each function that computes with floats:
  \<^item> \<open>exact\<close> rounds nothing (ideal arithmetic);
  \<^item> \<open>binary64\<close> rounds to the nearest number with a 53-bit significand, ties to even,
    as IEEE 754 double precision does for every result in the normal range (overflow,
    subnormal numbers, infinities and NaN are outside the model).
  The conversion of a small integer to a float is exact and is not rounded.

  Exceptions are values: a function that can raise returns \<open>py_error + result\<close>.
\<close>

datatype py_error = ZeroDivisionError | TypeError

definition exact :: "rat \<Rightarrow> rat" where
  "exact x = x"

definition round_half_even :: "rat \<Rightarrow> int" where
  "round_half_even q =
     (let f = \<lfloor>q\<rfloor>; r = q - of_int f
      in if r < 1 / 2 then f else if 1 / 2 < r then f + 1 else if even f then f else f + 1)"

definition pow2 :: "int \<Rightarrow> rat" where
  "pow2 e = (if 0 \<le> e then 2 ^ nat e else 1 / 2 ^ nat (- e))"

definition ilog2 :: "rat \<Rightarrow> int" where
  \<comment> \<open>for \<open>0 < a\<close>: the exponent \<open>e\<close> with \<open>2^e \<le> a < 2^(e+1)\<close>\<close>
  "ilog2 a = (if 1 \<le> a then bitlen \<lfloor>a\<rfloor> - 1 else - bitlen (\<lceil>1 / a\<rceil> - 1))"

definition binary64 :: "rat \<Rightarrow> rat" where
  "binary64 x =
     (if x = 0 then 0
      else let u = pow2 (ilog2 \<bar>x\<bar> - 52) in of_int (round_half_even (x / u)) * u)"

type_synonym ref = nat

definition alloc :: "'a list \<Rightarrow> 'a \<Rightarrow> 'a list \<times> ref" where
  \<comment> \<open>a new object in the store; its reference is its position\<close>
  "alloc h x = (h @ [x], length h)"

section \<open>Enumerations\<close>

datatype order_state = SUPERPOSITION | COLLAPSED | FAILED | DELIVERED

datatype resource_type = QUANTUM_ENERGY | PROBABILITY_STABILIZER | TIMELINE_TOKEN

datatype dish_type =
    QUANTUM_BURGER | SCHRODINGER_SALAD | ENTANGLED_PASTA | PROBABILITY_PIE
  | WAVE_FUNCTION_SOUP | UNCERTAINTY_SUSHI | QUBIT_QUESADILLA | SUPERPOSITION_STIR_FRY

datatype timeline_event =
  RESOURCE_BOOST | TIMELINE_SHIFT | QUANTUM_FLUCTUATION | REALITY_DISTORTION

datatype mini_puzzle_type = SEQUENCE | PATTERN | PROBABILITY | QUANTUM_STATE

section \<open>Order\<close>

text \<open>
  An outcome is a Python dict with four keys, here a record. Its description is the
  f-string \<^verbatim>\<open>f"Perfect {self.dish.value}"\<close>, kept as the quality word and the dish.
  Outcome dicts are objects: an order holds references to them (\<open>possible_outcomes\<close>,
  \<open>actual_outcome\<close>) and the dicts themselves live in a store \<open>D\<close>, a list indexed by
  reference, so that two lists can hold the same dict.
\<close>

datatype quality = Perfect | Good | Mediocre | Poor

record outcome =
  description :: "quality \<times> dish_type"
  satisfaction :: int
  reward_multiplier :: rat
  probability :: rat

text \<open>
  \<open>resource_requirements\<close> is a dict whose keys are always the three resource types, in
  the order of \<open>resource_kinds\<close>; it is a total function on \<^typ>\<open>resource_type\<close>.
\<close>

definition resource_kinds :: "resource_type list" where
  "resource_kinds = [QUANTUM_ENERGY, PROBABILITY_STABILIZER, TIMELINE_TOKEN]"

record order =
  order_id :: int
  state :: order_state
  dish :: dish_type
  time_limit :: int
  time_remaining :: int
  difficulty :: int
  resource_requirements :: "resource_type \<Rightarrow> int"
  reward :: int
  puzzle :: mini_puzzle_type
  possible_outcomes :: "ref list"
  actual_outcome :: "ref option"
  timeline :: int

fun sum_probability :: "(rat \<Rightarrow> rat) \<Rightarrow> outcome list \<Rightarrow> ref list \<Rightarrow> rat \<Rightarrow> rat" where
  \<comment> \<open>\<^verbatim>\<open>sum(outcome["probability"] for outcome in outcomes)\<close>, from the accumulator\<close>
  "sum_probability rnd D [] acc = acc"
| "sum_probability rnd D (r # rs) acc =
     sum_probability rnd D rs (rnd (acc + probability (D ! r)))"

fun normalize_loop ::
  "(rat \<Rightarrow> rat) \<Rightarrow> outcome list \<Rightarrow> rat \<Rightarrow> ref list \<Rightarrow> py_error + outcome list" where
  \<comment> \<open>\<^verbatim>\<open>for outcome in outcomes: outcome["probability"] /= total_prob\<close>\<close>
  "normalize_loop rnd D total_prob [] = Inr D"
| "normalize_loop rnd D total_prob (r # rs) =
     (if total_prob = 0 then Inl ZeroDivisionError
      else normalize_loop rnd
             (D[r := (D ! r)\<lparr>probability := rnd (probability (D ! r) / total_prob)\<rparr>])
             total_prob rs)"

definition generate_possible_outcomes ::
  "(rat \<Rightarrow> rat) \<Rightarrow> outcome list \<Rightarrow> dish_type \<Rightarrow> int \<Rightarrow> int
     \<Rightarrow> py_error + (outcome list \<times> ref list)" where
  \<comment> \<open>\<open>num_outcomes\<close> is the draw \<^verbatim>\<open>random.randint(2, 4)\<close>\<close>
  "generate_possible_outcomes rnd D dish' difficulty' num_outcomes =
     (let (D1, perfect) = alloc D
            \<lparr>description = (Perfect, dish'), satisfaction = 100,
             reward_multiplier = rnd (3 / 2),
             probability = rnd (rnd (1 / 5) + rnd (rnd (1 / 10) * of_int difficulty'))\<rparr>;
          outcomes = [perfect];
          (D2, good) = alloc D1
            \<lparr>description = (Good, dish'), satisfaction = 80,
             reward_multiplier = rnd 1, probability = rnd (2 / 5)\<rparr>;
          outcomes = outcomes @ [good];
          (D3, outcomes) =
            (if num_outcomes > 2
             then let (D', mediocre) = alloc D2
                        \<lparr>description = (Mediocre, dish'), satisfaction = 50,
                         reward_multiplier = rnd (7 / 10), probability = rnd (3 / 10)\<rparr>
                  in (D', outcomes @ [mediocre])
             else (D2, outcomes));
          (D4, outcomes) =
            (if num_outcomes > 3
             then let (D', poor) = alloc D3
                        \<lparr>description = (Poor, dish'), satisfaction = 20,
                         reward_multiplier = rnd (3 / 10), probability = rnd (1 / 10)\<rparr>
                  in (D', outcomes @ [poor])
             else (D3, outcomes));
          total_prob = sum_probability rnd D4 outcomes 0
      in case normalize_loop rnd D4 total_prob outcomes of
           Inl e \<Rightarrow> Inl e
         | Inr D5 \<Rightarrow> Inr (D5, outcomes))"

text \<open>
  The constructor \<^verbatim>\<open>Order.__init__(day)\<close>. Its random draws are the fields of
  \<open>order_draws\<close>, in the order the constructor makes them.
\<close>

record order_draws =
  draw_id :: int
  draw_dish :: dish_type
  draw_time_limit :: int
  draw_quantum_energy :: int
  draw_probability_stabilizer :: int
  draw_timeline_token :: int
  draw_puzzle :: mini_puzzle_type
  draw_num_outcomes :: int
  draw_timeline :: int

definition order_init ::
  "(rat \<Rightarrow> rat) \<Rightarrow> outcome list \<Rightarrow> int \<Rightarrow> order_draws \<Rightarrow> py_error + (outcome list \<times> order)" where
  "order_init rnd D day' dr =
     (let difficulty' = min (1 + day' div 3) 5;
          requirements = (\<lambda>k. case k of
              QUANTUM_ENERGY \<Rightarrow> draw_quantum_energy dr
            | PROBABILITY_STABILIZER \<Rightarrow> draw_probability_stabilizer dr
            | TIMELINE_TOKEN \<Rightarrow> draw_timeline_token dr);
          reward' = sum_list (map requirements resource_kinds) * 10 + difficulty' * 5
      in case generate_possible_outcomes rnd D (draw_dish dr) difficulty' (draw_num_outcomes dr) of
           Inl e \<Rightarrow> Inl e
         | Inr (D', outcomes) \<Rightarrow>
             Inr (D', \<lparr>order_id = draw_id dr, state = SUPERPOSITION, dish = draw_dish dr,
                       time_limit = draw_time_limit dr, time_remaining = draw_time_limit dr,
                       difficulty = difficulty', resource_requirements = requirements,
                       reward = reward', puzzle = draw_puzzle dr,
                       possible_outcomes = outcomes, actual_outcome = None,
                       timeline = draw_timeline dr\<rparr>))"

fun bias_loop ::
  "(rat \<Rightarrow> rat) \<Rightarrow> outcome list \<Rightarrow> rat \<Rightarrow> int \<Rightarrow> ref list \<Rightarrow> py_error + outcome list" where
  \<comment> \<open>the loop of lines 127-131; \<open>n\<close> is \<^verbatim>\<open>len(modified_outcomes)\<close>\<close>
  "bias_loop rnd D bonus_probability n [] = Inr D"
| "bias_loop rnd D bonus_probability n (r # rs) =
     (if satisfaction (D ! r) \<ge> 80
      then bias_loop rnd
             (D[r := (D ! r)\<lparr>probability := rnd (probability (D ! r) + bonus_probability)\<rparr>])
             bonus_probability n rs
      else if n - 2 = 0 then Inl ZeroDivisionError
      else bias_loop rnd
             (D[r := (D ! r)\<lparr>probability :=
                  rnd (probability (D ! r) - rnd (bonus_probability / of_int (n - 2)))\<rparr>])
             bonus_probability n rs)"

fun select_loop :: "(rat \<Rightarrow> rat) \<Rightarrow> outcome list \<Rightarrow> rat \<Rightarrow> rat \<Rightarrow> ref list \<Rightarrow> ref option" where
  \<comment> \<open>the loop of lines 141-145: the first outcome whose cumulative probability reaches
      \<open>rand\<close>, \<open>None\<close> when the loop ends without a \<^verbatim>\<open>break\<close>\<close>
  "select_loop rnd D rand cumulative_prob [] = None"
| "select_loop rnd D rand cumulative_prob (r # rs) =
     (let cumulative_prob' = rnd (cumulative_prob + probability (D ! r))
      in if rand \<le> cumulative_prob' then Some r
         else select_loop rnd D rand cumulative_prob' rs)"

definition collapse_state ::
  "(rat \<Rightarrow> rat) \<Rightarrow> outcome list \<Rightarrow> order \<Rightarrow> rat \<Rightarrow> rat \<Rightarrow> py_error + (outcome list \<times> order)" where
  \<comment> \<open>\<open>rand\<close> is the draw \<^verbatim>\<open>random.random()\<close>. \<^verbatim>\<open>self.possible_outcomes.copy()\<close> is a new
      list of the same references: the list is copied, the dicts are not.\<close>
  "collapse_state rnd D self bonus_probability rand =
     (if state self \<noteq> SUPERPOSITION then Inr (D, self)
      else
        let modified_outcomes = possible_outcomes self
        in case (if bonus_probability > 0
                 then (case bias_loop rnd D bonus_probability
                              (int (length modified_outcomes)) modified_outcomes of
                         Inl e \<Rightarrow> Inl e
                       | Inr D1 \<Rightarrow>
                           normalize_loop rnd D1
                             (sum_probability rnd D1 modified_outcomes 0) modified_outcomes)
                 else Inr D) of
             Inl e \<Rightarrow> Inl e
           | Inr D2 \<Rightarrow>
               Inr (D2,
                    (case select_loop rnd D2 rand 0 modified_outcomes of
                       None \<Rightarrow> self
                     | Some r \<Rightarrow> self\<lparr>actual_outcome := Some r\<rparr>)\<lparr>state := COLLAPSED\<rparr>))"

definition update_time_order :: "order \<Rightarrow> order \<times> bool" where
  \<comment> \<open>\<^verbatim>\<open>Order.update_time\<close>\<close>
  "update_time_order self =
     (let self1 = self\<lparr>time_remaining := time_remaining self - 1\<rparr>
      in if time_remaining self1 \<le> 0 \<and> state self1 = SUPERPOSITION
         then (self1\<lparr>state := FAILED\<rparr>, True)
         else (self1, False))"

section \<open>KuantumKitchen\<close>

text \<open>
  Orders are objects too: the kitchen's lists (\<open>available_orders\<close>, \<open>active_orders\<close>,
  \<open>completed_orders\<close>, \<open>failed_orders\<close>) and its \<open>timelines\<close> index hold references into
  the store \<open>orders\<close>, so that a change of an order through one list is seen through the
  others. The stores of Order objects and of outcome dicts are fields of the kitchen
  record, which is the whole state of the program. \<open>timelines\<close> is a
  \<^verbatim>\<open>defaultdict(list)\<close>: an association list in insertion order, with unique keys.
  The fields \<open>kitchen_units\<close> and \<open>tutorial_shown\<close> are only displayed and are left out.

  A command returns \<^verbatim>\<open>(success, message)\<close>; a message is its f-string's template and
  arguments. Random draws and the result of the interactive \<^verbatim>\<open>solve_puzzle\<close> are
  arguments of the functions that make them.
\<close>

datatype phase = Planning | Execution | Delivery

datatype message =
    Invalid_order_index
  | Can_only_handle int
  | Accepted_order int
  | Order_rejected
  | Cannot_prepare order_state
  | Not_enough resource_type
  | Prepared int "quality \<times> dish_type" "int option" "(int \<times> resource_type) option"
  | Cannot_deliver order_state
  | Delivered_order int int

text \<open>
  \<open>Prepared id description earned gained\<close>: \<open>earned\<close> is \<open>Some final_reward\<close> for
  \<^verbatim>\<open>Earned {final_reward} points.\<close> and \<open>None\<close> for \<^verbatim>\<open>Reality distortion detected!\<close>;
  \<open>gained\<close> is the appended \<^verbatim>\<open>Gained {refund_amount} {refund_resource.value}!\<close>.
\<close>

record kitchen =
  day :: int
  resources :: "resource_type \<Rightarrow> int"
  active_orders :: "ref list"
  completed_orders :: "ref list"
  failed_orders :: "ref list"
  score :: int
  customer_satisfaction :: rat
  reality_stability :: rat
  timelines :: "(int \<times> ref list) list"
  current_phase :: phase
  max_active_orders :: int
  available_orders :: "ref list"
  special_events :: "timeline_event list"
  orders :: "order list"
  outcomes :: "outcome list"

definition kitchen_init :: kitchen where
  \<comment> \<open>\<^verbatim>\<open>KuantumKitchen.__init__\<close>, with empty stores\<close>
  "kitchen_init =
     \<lparr>day = 1,
      resources = (\<lambda>k. case k of
          QUANTUM_ENERGY \<Rightarrow> 10 | PROBABILITY_STABILIZER \<Rightarrow> 5 | TIMELINE_TOKEN \<Rightarrow> 2),
      active_orders = [], completed_orders = [], failed_orders = [], score = 0,
      customer_satisfaction = 50, reality_stability = 100, timelines = [],
      current_phase = Planning, max_active_orders = 3, available_orders = [],
      special_events = [], orders = [], outcomes = []\<rparr>"

fun generate_loop ::
  "(rat \<Rightarrow> rat) \<Rightarrow> kitchen \<Rightarrow> (nat \<Rightarrow> order_draws) \<Rightarrow> nat \<Rightarrow> nat \<Rightarrow> py_error + kitchen" where
  \<comment> \<open>\<^verbatim>\<open>for _ in range(num_orders): self.available_orders.append(Order(self.day))\<close>;
      \<open>i\<close> counts the orders made, \<open>n\<close> those still to make\<close>
  "generate_loop rnd k draws i 0 = Inr k"
| "generate_loop rnd k draws i (Suc n) =
     (case order_init rnd (outcomes k) (day k) (draws i) of
        Inl e \<Rightarrow> Inl e
      | Inr (D', new) \<Rightarrow>
          let (os', r) = alloc (orders k) new
          in generate_loop rnd
               (k\<lparr>outcomes := D', orders := os',
                  available_orders := available_orders k @ [r]\<rparr>)
               draws (Suc i) n)"

definition generate_orders :: "(rat \<Rightarrow> rat) \<Rightarrow> kitchen \<Rightarrow> (nat \<Rightarrow> order_draws) \<Rightarrow> py_error + kitchen" where
  "generate_orders rnd k draws =
     (let num_orders = 3 + min (day k div 2) 5
      in generate_loop rnd (k\<lparr>available_orders := []\<rparr>) draws 0 (nat num_orders))"

definition pop :: "'a list \<Rightarrow> nat \<Rightarrow> 'a list" where
  \<comment> \<open>\<^verbatim>\<open>xs.pop(i)\<close> for a valid index: the list without its \<open>i\<close>-th element\<close>
  "pop xs i = take i xs @ drop (Suc i) xs"

fun timelines_append :: "(int \<times> ref list) list \<Rightarrow> int \<Rightarrow> ref \<Rightarrow> (int \<times> ref list) list" where
  \<comment> \<open>\<^verbatim>\<open>self.timelines[t].append(r)\<close>: a missing key is created at the end\<close>
  "timelines_append [] t r = [(t, [r])]"
| "timelines_append ((t', rs) # ts) t r =
     (if t' = t then (t', rs @ [r]) # ts else (t', rs) # timelines_append ts t r)"

fun timelines_get :: "(int \<times> ref list) list \<Rightarrow> int \<Rightarrow> (int \<times> ref list) list \<times> ref list" where
  \<comment> \<open>reading \<^verbatim>\<open>self.timelines[t]\<close>: a missing key is created with an empty list\<close>
  "timelines_get [] t = ([(t, [])], [])"
| "timelines_get ((t', rs) # ts) t =
     (if t' = t then ((t', rs) # ts, rs)
      else let (ts', found) = timelines_get ts t in ((t', rs) # ts', found))"

fun timelines_remove :: "(int \<times> ref list) list \<Rightarrow> int \<Rightarrow> ref \<Rightarrow> (int \<times> ref list) list" where
  \<comment> \<open>\<^verbatim>\<open>self.timelines[t].remove(r)\<close> for an existing key \<open>t\<close> whose list holds \<open>r\<close>\<close>
  "timelines_remove [] t r = []"
| "timelines_remove ((t', rs) # ts) t r =
     (if t' = t then (t', remove1 r rs) # ts else (t', rs) # timelines_remove ts t r)"

definition accept_order :: "kitchen \<Rightarrow> int \<Rightarrow> (bool \<times> message) \<times> kitchen" where
  "accept_order k order_idx =
     (if order_idx < 0 \<or> order_idx \<ge> int (length (available_orders k))
      then ((False, Invalid_order_index), k)
      else
        let r = available_orders k ! nat order_idx
        in if int (length (active_orders k)) \<ge> max_active_orders k
           then ((False, Can_only_handle (max_active_orders k)), k)
           else ((True, Accepted_order (order_id (orders k ! r))),
                 k\<lparr>active_orders := active_orders k @ [r],
                   timelines := timelines_append (timelines k) (timeline (orders k ! r)) r,
                   available_orders := pop (available_orders k) (nat order_idx)\<rparr>))"

definition reject_order :: "(rat \<Rightarrow> rat) \<Rightarrow> kitchen \<Rightarrow> int \<Rightarrow> (bool \<times> message) \<times> kitchen" where
  "reject_order rnd k order_idx =
     (if order_idx < 0 \<or> order_idx \<ge> int (length (available_orders k))
      then ((False, Invalid_order_index), k)
      else ((True, Order_rejected),
            k\<lparr>available_orders := pop (available_orders k) (nat order_idx),
              customer_satisfaction := max 0 (rnd (customer_satisfaction k - 2))\<rparr>))"

fun check_resources ::
  "(resource_type \<Rightarrow> int) \<Rightarrow> (resource_type \<Rightarrow> int) \<Rightarrow> resource_type list \<Rightarrow> resource_type option" where
  \<comment> \<open>the loop of lines 426-428: the first resource whose balance is below the amount\<close>
  "check_resources balance amount [] = None"
| "check_resources balance amount (r # rs) =
     (if balance r < amount r then Some r else check_resources balance amount rs)"

fun consume_resources ::
  "(resource_type \<Rightarrow> int) \<Rightarrow> (resource_type \<Rightarrow> int) \<Rightarrow> resource_type list \<Rightarrow> (resource_type \<Rightarrow> int)" where
  \<comment> \<open>the loop of lines 438-439\<close>
  "consume_resources balance amount [] = balance"
| "consume_resources balance amount (r # rs) =
     consume_resources (balance(r := balance r - amount r)) amount rs"

definition py_int :: "rat \<Rightarrow> int" where
  \<comment> \<open>\<^verbatim>\<open>int(x)\<close> of a float: truncation towards zero\<close>
  "py_int x = (if 0 \<le> x then \<lfloor>x\<rfloor> else \<lceil>x\<rceil>)"

definition apply_outcome ::
  "(rat \<Rightarrow> rat) \<Rightarrow> kitchen \<Rightarrow> order \<Rightarrow> outcome \<Rightarrow> resource_type \<Rightarrow> (bool \<times> message) \<times> kitchen" where
  \<comment> \<open>lines 444-467 of \<^verbatim>\<open>prepare_order\<close>: \<open>self\<close> is the collapsed order, \<open>out\<close> its
      \<^verbatim>\<open>actual_outcome\<close>, \<open>refund_resource\<close> the draw of line 462\<close>
  "apply_outcome rnd k self out refund_resource =
     (let satisfaction_delta = rnd (of_int (satisfaction out - 50) / 10);
          k1 = k\<lparr>customer_satisfaction :=
                 min 100 (max 0 (rnd (customer_satisfaction k + satisfaction_delta)))\<rparr>;
          final_reward = py_int (rnd (of_int (reward self) * reward_multiplier out));
          k2 = k1\<lparr>score := score k1 + final_reward\<rparr>;
          k3 = (if satisfaction out < 50
                then k2\<lparr>reality_stability :=
                       max 0 (rnd (reality_stability k2
                         - rnd (of_int (50 - satisfaction out) / 10)))\<rparr>
                else k2);
          earned = (if satisfaction out < 50 then None else Some final_reward)
      in if satisfaction out \<ge> 80
         then
           let refund_amount = 1 + (if satisfaction out \<ge> 90 then 1 else 0)
           in ((True, Prepared (order_id self) (description out) earned
                        (Some (refund_amount, refund_resource))),
               k3\<lparr>resources := (resources k3)
                    (refund_resource := resources k3 refund_resource + refund_amount)\<rparr>)
         else ((True, Prepared (order_id self) (description out) earned None), k3))"

definition prepare_order ::
  "(rat \<Rightarrow> rat) \<Rightarrow> kitchen \<Rightarrow> int \<Rightarrow> bool \<Rightarrow> rat \<Rightarrow> resource_type
     \<Rightarrow> py_error + ((bool \<times> message) \<times> kitchen)" where
  \<comment> \<open>\<open>puzzle_completed\<close> is what \<^verbatim>\<open>self.solve_puzzle(puzzle)\<close> returns, \<open>rand\<close> the draw
      of \<^verbatim>\<open>collapse_state\<close>, \<open>refund_resource\<close> the draw of line 462. Reading
      \<^verbatim>\<open>order.actual_outcome["satisfaction"]\<close> raises TypeError when no outcome was set.\<close>
  "prepare_order rnd k order_idx puzzle_completed rand refund_resource =
     (if order_idx < 0 \<or> order_idx \<ge> int (length (active_orders k))
      then Inr ((False, Invalid_order_index), k)
      else
        let r = active_orders k ! nat order_idx;
            self = orders k ! r
        in if state self \<noteq> SUPERPOSITION
           then Inr ((False, Cannot_prepare (state self)), k)
           else
             (case check_resources (resources k) (resource_requirements self) resource_kinds of
                Some lacking \<Rightarrow> Inr ((False, Not_enough lacking), k)
              | None \<Rightarrow>
                  (let probability_bonus = (if puzzle_completed then rnd (1 / 5) else 0);
                       k1 = k\<lparr>resources :=
                              consume_resources (resources k) (resource_requirements self)
                                resource_kinds\<rparr>
                   in (case collapse_state rnd (outcomes k1) self probability_bonus rand of
                         Inl e \<Rightarrow> Inl e
                       | Inr (D', self') \<Rightarrow>
                           (case actual_outcome self' of
                              None \<Rightarrow> Inl TypeError
                            | Some a \<Rightarrow>
                                Inr (apply_outcome rnd
                                       (k1\<lparr>outcomes := D', orders := (orders k1)[r := self']\<rparr>)
                                       self' (D' ! a) refund_resource))))))"

fun reward_loop ::
  "(resource_type \<Rightarrow> int) \<Rightarrow> (nat \<Rightarrow> resource_type) \<Rightarrow> nat \<Rightarrow> nat \<Rightarrow> (resource_type \<Rightarrow> int)" where
  \<comment> \<open>the loop of lines 526-528; \<open>draws i\<close> is the \<open>i\<close>-th \<^verbatim>\<open>random.choice\<close>\<close>
  "reward_loop balance draws i 0 = balance"
| "reward_loop balance draws i (Suc n) =
     reward_loop (balance(draws i := balance (draws i) + 1)) draws (Suc i) n"

definition deliver_order ::
  "kitchen \<Rightarrow> int \<Rightarrow> (nat \<Rightarrow> resource_type) \<Rightarrow> py_error + ((bool \<times> message) \<times> kitchen)" where
  "deliver_order k order_idx draws =
     (if order_idx < 0 \<or> order_idx \<ge> int (length (active_orders k))
      then Inr ((False, Invalid_order_index), k)
      else
        let r = active_orders k ! nat order_idx;
            self = orders k ! r
        in if state self \<noteq> COLLAPSED
           then Inr ((False, Cannot_deliver (state self)), k)
           else
             let k1 = k\<lparr>active_orders := pop (active_orders k) (nat order_idx),
                        completed_orders := completed_orders k @ [r]\<rparr>;
                 (ts, found) = timelines_get (timelines k1) (timeline self);
                 k2 = k1\<lparr>timelines :=
                        (if r \<in> set found then timelines_remove ts (timeline self) r else ts)\<rparr>;
                 k3 = k2\<lparr>orders := (orders k2)[r := self\<lparr>state := DELIVERED\<rparr>]\<rparr>
             in case actual_outcome self of
                  None \<Rightarrow> Inl TypeError
                | Some a \<Rightarrow>
                    let resource_reward = satisfaction (outcomes k3 ! a) div 20;
                        k4 = (if resource_reward > 0
                              then k3\<lparr>resources :=
                                     reward_loop (resources k3) draws 0 (nat resource_reward)\<rparr>
                              else k3)
                    in Inr ((True, Delivered_order (order_id self) (satisfaction (outcomes k3 ! a))),
                            k4))"

fun update_loop :: "order list \<Rightarrow> ref list \<Rightarrow> order list \<times> ref list" where
  \<comment> \<open>the loop of lines 536-539: the store after the updates, and \<open>expired_orders\<close>\<close>
  "update_loop os [] = (os, [])"
| "update_loop os (r # rs) =
     (if state (os ! r) = SUPERPOSITION
      then let (self', expired) = update_time_order (os ! r);
               (os', expired_orders) = update_loop (os[r := self']) rs
           in (os', if expired then r # expired_orders else expired_orders)
      else update_loop os rs)"

fun expire_loop :: "(rat \<Rightarrow> rat) \<Rightarrow> kitchen \<Rightarrow> ref list \<Rightarrow> kitchen" where
  \<comment> \<open>the loop of lines 542-551\<close>
  "expire_loop rnd k [] = k"
| "expire_loop rnd k (r # rs) =
     expire_loop rnd
       (k\<lparr>active_orders := remove1 r (active_orders k),
          failed_orders := failed_orders k @ [r],
          customer_satisfaction := max 0 (rnd (customer_satisfaction k - 5)),
          reality_stability := max 0 (rnd (reality_stability k - 5))\<rparr>)
       rs"

definition update_time :: "(rat \<Rightarrow> rat) \<Rightarrow> kitchen \<Rightarrow> bool \<times> kitchen" where
  \<comment> \<open>\<^verbatim>\<open>KuantumKitchen.update_time\<close>\<close>
  "update_time rnd k =
     (let (os', expired_orders) = update_loop (orders k) (active_orders k)
      in (length expired_orders > 0, expire_loop rnd (k\<lparr>orders := os'\<rparr>) expired_orders))"

text \<open>
  The draws of \<^verbatim>\<open>trigger_special_event\<close>: the event, the boosted resource and amount,
  the new timeline of the \<open>i\<close>-th shifted order, the position in \<open>active_orders\<close> that
  \<^verbatim>\<open>random.choice\<close> picks, and the stability loss. The text the function returns is only
  printed and is not modelled.
\<close>

record event_draws =
  draw_event :: timeline_event
  draw_resource :: resource_type
  draw_amount :: int
  draw_shift :: "nat \<Rightarrow> int"
  draw_choice :: nat
  draw_stability_loss :: int

fun shift_loop :: "kitchen \<Rightarrow> (nat \<Rightarrow> int) \<Rightarrow> nat \<Rightarrow> ref list \<Rightarrow> kitchen" where
  \<comment> \<open>the loop of lines 604-606\<close>
  "shift_loop k draws i [] = k"
| "shift_loop k draws i (r # rs) =
     shift_loop
       (k\<lparr>orders := (orders k)[r := (orders k ! r)\<lparr>timeline := draws i\<rparr>],
          timelines := timelines_append (timelines k) (draws i) r\<rparr>)
       draws (Suc i) rs"

definition trigger_special_event :: "(rat \<Rightarrow> rat) \<Rightarrow> kitchen \<Rightarrow> event_draws \<Rightarrow> kitchen" where
  "trigger_special_event rnd k dr =
     (let event = draw_event dr;
          k1 = k\<lparr>special_events := special_events k @ [event]\<rparr>
      in case event of
           RESOURCE_BOOST \<Rightarrow>
             k1\<lparr>resources := (resources k1)
                  (draw_resource dr := resources k1 (draw_resource dr) + draw_amount dr)\<rparr>
         | TIMELINE_SHIFT \<Rightarrow>
             let all_orders = concat (map snd (timelines k1))
             in shift_loop (k1\<lparr>timelines := []\<rparr>) (draw_shift dr) 0 all_orders
         | QUANTUM_FLUCTUATION \<Rightarrow>
             if active_orders k1 \<noteq> []
             then let r = active_orders k1 ! draw_choice dr;
                      self = orders k1 ! r
                  in if state self = SUPERPOSITION
                     then k1\<lparr>orders := (orders k1)
                            [r := self\<lparr>time_remaining :=
                                    min (time_limit self) (time_remaining self + 2)\<rparr>]\<rparr>
                     else k1
             else k1
         | REALITY_DISTORTION \<Rightarrow>
             k1\<lparr>reality_stability :=
                  max 0 (rnd (reality_stability k1 - of_int (draw_stability_loss dr)))\<rparr>)"

definition advance_day :: "(rat \<Rightarrow> rat) \<Rightarrow> kitchen \<Rightarrow> rat \<Rightarrow> event_draws \<Rightarrow> kitchen" where
  \<comment> \<open>\<open>roll\<close> is the draw \<^verbatim>\<open>random.random()\<close> of line 557\<close>
  "advance_day rnd k roll dr =
     (let k1 = (if roll < rnd (3 / 10) then trigger_special_event rnd k dr else k);
          daily_resources = (\<lambda>r. case r of
              QUANTUM_ENERGY \<Rightarrow> 5 + day k1 div 2
            | PROBABILITY_STABILIZER \<Rightarrow> 2 + day k1 div 3
            | TIMELINE_TOKEN \<Rightarrow> 1 + day k1 div 4);
          k2 = k1\<lparr>resources := (\<lambda>r. resources k1 r + daily_resources r)\<rparr>;
          stability_gain = 5 + of_int \<lfloor>customer_satisfaction k2 / 20\<rfloor>;
          k3 = k2\<lparr>reality_stability := min 100 (rnd (reality_stability k2 + stability_gain))\<rparr>;
          k4 = k3\<lparr>day := day k3 + 1\<rparr>
      in k4\<lparr>max_active_orders := 3 + min (day k4 div 3) 4\<rparr>)"

fun penalty_loop :: "(rat \<Rightarrow> rat) \<Rightarrow> rat \<Rightarrow> ref list \<Rightarrow> rat" where
  \<comment> \<open>the loop of lines 878-879, on the customer satisfaction\<close>
  "penalty_loop rnd cs [] = cs"
| "penalty_loop rnd cs (r # rs) = penalty_loop rnd (max 0 (rnd (cs - 3))) rs"

definition end_day_with_active_orders :: "(rat \<Rightarrow> rat) \<Rightarrow> kitchen \<Rightarrow> kitchen" where
  \<comment> \<open>lines 877-883 of \<^verbatim>\<open>run_delivery_phase\<close>: the player ends the day and confirms
      while orders are still active\<close>
  "end_day_with_active_orders rnd k =
     k\<lparr>customer_satisfaction := penalty_loop rnd (customer_satisfaction k) (active_orders k),
       active_orders := [], timelines := []\<rparr>"

section \<open>Concrete orders and kitchens\<close>

text \<open>
  An order as the constructor builds it on day 2 (difficulty 1) with two outcomes, whose
  dicts are at the references 0 and 1 of the store.
\<close>

definition example_order :: order where
  "example_order =
     \<lparr>order_id = 1234, state = SUPERPOSITION, dish = QUANTUM_BURGER, time_limit = 3,
      time_remaining = 3, difficulty = 1,
      resource_requirements = (\<lambda>k. case k of
          QUANTUM_ENERGY \<Rightarrow> 2 | PROBABILITY_STABILIZER \<Rightarrow> 0 | TIMELINE_TOKEN \<Rightarrow> 0),
      reward = 25, puzzle = QUANTUM_STATE, possible_outcomes = [0, 1],
      actual_outcome = None, timeline = 1\<rparr>"

definition example_outcomes :: "outcome list" where
  "example_outcomes =
     [\<lparr>description = (Perfect, QUANTUM_BURGER), satisfaction = 100,
       reward_multiplier = 3 / 2, probability = 3 / 7\<rparr>,
      \<lparr>description = (Good, QUANTUM_BURGER), satisfaction = 80,
       reward_multiplier = 1, probability = 4 / 7\<rparr>]"

definition example_kitchen :: kitchen where
  "example_kitchen =
     kitchen_init\<lparr>day := 2, active_orders := [0], timelines := [(1, [0])],
       orders := [example_order], outcomes := example_outcomes\<rparr>"

definition example_draws :: order_draws where
  "example_draws =
     \<lparr>draw_id = 1234, draw_dish = QUANTUM_BURGER, draw_time_limit = 3,
      draw_quantum_energy = 2, draw_probability_stabilizer = 0, draw_timeline_token = 0,
      draw_puzzle = QUANTUM_STATE, draw_num_outcomes = 2, draw_timeline = 1\<rparr>"

definition example_outcomes4 :: "outcome list" where
  "example_outcomes4 =
     [\<lparr>description = (Perfect, QUANTUM_BURGER), satisfaction = 100,
       reward_multiplier = 3 / 2, probability = 3 / 11\<rparr>,
      \<lparr>description = (Good, QUANTUM_BURGER), satisfaction = 80,
       reward_multiplier = 1, probability = 4 / 11\<rparr>,
      \<lparr>description = (Mediocre, QUANTUM_BURGER), satisfaction = 50,
       reward_multiplier = 7 / 10, probability = 3 / 11\<rparr>,
      \<lparr>description = (Poor, QUANTUM_BURGER), satisfaction = 20,
       reward_multiplier = 3 / 10, probability = 1 / 11\<rparr>]"

definition example_kitchen4 :: kitchen where
  "example_kitchen4 =
     example_kitchen\<lparr>orders := [example_order\<lparr>possible_outcomes := [0, 1, 2, 3]\<rparr>],
                     outcomes := example_outcomes4\<rparr>"

definition example_event :: event_draws where
  "example_event =
     \<lparr>draw_event = REALITY_DISTORTION, draw_resource = QUANTUM_ENERGY, draw_amount = 2,
      draw_shift = (\<lambda>_. 1), draw_choice = 0, draw_stability_loss = 7\<rparr>"

text \<open>
  The same kitchens with the arithmetic of the program: the outcome dicts hold the
  probabilities that the constructor computes with \<open>binary64\<close>, for two outcomes and for
  four.
\<close>

definition float_outcomes :: "outcome list" where
  "float_outcomes =
     [\<lparr>description = (Perfect, QUANTUM_BURGER), satisfaction = 100,
       reward_multiplier = 3 / 2,
       probability = 1930114126015927 / 4503599627370496\<rparr>,
      \<lparr>description = (Good, QUANTUM_BURGER), satisfaction = 80,
       reward_multiplier = 1,
       probability = 2573485501354569 / 4503599627370496\<rparr>]"

definition float_kitchen :: kitchen where
  "float_kitchen = example_kitchen\<lparr>outcomes := float_outcomes\<rparr>"

definition float_outcomes4 :: "outcome list" where
  "float_outcomes4 =
     [\<lparr>description = (Perfect, QUANTUM_BURGER), satisfaction = 100,
       reward_multiplier = 3 / 2,
       probability = 4913017775313269 / 18014398509481984\<rparr>,
      \<lparr>description = (Good, QUANTUM_BURGER), satisfaction = 80,
       reward_multiplier = 1,
       probability = 3275345183542179 / 9007199254740992\<rparr>,
      \<lparr>description = (Mediocre, QUANTUM_BURGER), satisfaction = 50,
       reward_multiplier = 3152519739159347 / 4503599627370496,
       probability = 1228254443828317 / 4503599627370496\<rparr>,
      \<lparr>description = (Poor, QUANTUM_BURGER), satisfaction = 20,
       reward_multiplier = 5404319552844595 / 18014398509481984,
       probability = 3275345183542179 / 36028797018963968\<rparr>]"

definition float_kitchen4 :: kitchen where
  "float_kitchen4 = example_kitchen4\<lparr>outcomes := float_outcomes4\<rparr>"

text \<open>
  The timelines index agrees with the active orders when it holds exactly the active
  orders, each once. \<open>shift_event\<close> is a Timeline Shift that draws timeline 2 for every
  order.
\<close>

definition timelines_consistent :: "kitchen \<Rightarrow> bool" where
  "timelines_consistent k \<longleftrightarrow>
     distinct (concat (map snd (timelines k))) \<and>
     set (concat (map snd (timelines k))) = set (active_orders k)"

definition shift_event :: event_draws where
  "shift_event =
     \<lparr>draw_event = TIMELINE_SHIFT, draw_resource = QUANTUM_ENERGY, draw_amount = 2,
      draw_shift = (\<lambda>_. 2), draw_choice = 0, draw_stability_loss = 7\<rparr>"

section \<open>The two meters\<close>

text \<open>
  Customer satisfaction and reality stability are Python numbers; \<open>is_integral\<close> says that
  the value is a whole number. \<open>order_ok\<close> is what the constructor establishes for an order
  that is still in SUPERPOSITION: no outcome is set, the outcome references are in the
  store, and every satisfaction score is a multiple of 10 between 0 and 100 (100, 80, 50
  or 20).

  Every whole number of magnitude below \<open>2^53\<close> is a float, so a float operation whose exact
  result is such a number returns it unrounded. \<open>whole_exact rnd\<close> says this of a rounding
  function; it holds of \<open>binary64\<close> and of \<open>exact\<close>.
\<close>

definition is_integral :: "rat \<Rightarrow> bool" where
  "is_integral x \<longleftrightarrow> of_int \<lfloor>x\<rfloor> = x"

definition meters_ok :: "kitchen \<Rightarrow> bool" where
  "meters_ok k \<longleftrightarrow>
     is_integral (customer_satisfaction k) \<and>
     0 \<le> customer_satisfaction k \<and> customer_satisfaction k \<le> 100 \<and>
     is_integral (reality_stability k) \<and>
     0 \<le> reality_stability k \<and> reality_stability k \<le> 100"

definition order_ok :: "outcome list \<Rightarrow> order \<Rightarrow> bool" where
  "order_ok D self \<longleftrightarrow>
     actual_outcome self = None \<and>
     (\<forall>a \<in> set (possible_outcomes self).
        a < length D \<and> 10 dvd satisfaction (D ! a) \<and>
        0 \<le> satisfaction (D ! a) \<and> satisfaction (D ! a) \<le> 100)"

definition whole_exact :: "(rat \<Rightarrow> rat) \<Rightarrow> bool" where
  "whole_exact rnd \<longleftrightarrow> (\<forall>i::int. \<bar>i\<bar> < 2 ^ 53 \<longrightarrow> rnd (of_int i) = of_int i)"

section \<open>Lemmas\<close>


lemma example_order_init:
  "order_init exact [] 2 example_draws = Inr (example_outcomes, example_order)"
  by (simp add: order_init_def generate_possible_outcomes_def alloc_def exact_def
      example_draws_def example_outcomes_def example_order_def resource_kinds_def Let_def)

lemma example_order_init4:
  "order_init exact [] 2 (example_draws\<lparr>draw_num_outcomes := 4\<rparr>) =
     Inr (example_outcomes4, example_order\<lparr>possible_outcomes := [0, 1, 2, 3]\<rparr>)"
  by (simp add: order_init_def generate_possible_outcomes_def alloc_def exact_def
      example_draws_def example_outcomes4_def example_order_def resource_kinds_def Let_def)

lemma floor_numeral_div:
  "\<lfloor>numeral a / numeral b :: rat\<rfloor> = numeral a div numeral b"
  by (metis floor_divide_of_int_eq of_int_numeral)

lemma consume_resources_kinds:
  "consume_resources balance amount resource_kinds = (\<lambda>kind. balance kind - amount kind)"
proof
  fix kind
  show "consume_resources balance amount resource_kinds kind = balance kind - amount kind"
    by (cases kind) (simp_all add: resource_kinds_def)
qed




lemma prepare_order_enough:
  assumes "0 \<le> order_idx" and "order_idx < int (length (active_orders k))"
    and "state (orders k ! (active_orders k ! nat order_idx)) = SUPERPOSITION"
    and "check_resources (resources k)
           (resource_requirements (orders k ! (active_orders k ! nat order_idx)))
           resource_kinds = None"
    and "collapse_state rnd (outcomes k) (orders k ! (active_orders k ! nat order_idx))
           (if puzzle_completed then rnd (1 / 5) else 0) rand = c"
  shows "prepare_order rnd k order_idx puzzle_completed rand refund_resource =
     (case c of
        Inl e \<Rightarrow> Inl e
      | Inr (D', self') \<Rightarrow>
          (case actual_outcome self' of
             None \<Rightarrow> Inl TypeError
           | Some a \<Rightarrow>
               Inr (apply_outcome rnd
                      (k\<lparr>resources := (\<lambda>kind. resources k kind -
                             resource_requirements
                               (orders k ! (active_orders k ! nat order_idx)) kind),
                         outcomes := D',
                         orders := (orders k)[active_orders k ! nat order_idx := self']\<rparr>)
                      self' (D' ! a) refund_resource)))"
  using assms
  by (auto simp: prepare_order_def Let_def consume_resources_kinds
      split: sum.splits option.splits)

lemma is_integral_iff: "is_integral x \<longleftrightarrow> x \<in> \<int>"
  unfolding is_integral_def
  by (metis Ints_of_int of_int_floor)

lemma is_integral_simps:
  "is_integral 0" "is_integral (numeral n)" "is_integral (of_int i)"
  "is_integral x \<Longrightarrow> is_integral y \<Longrightarrow> is_integral (x + y)"
  "is_integral x \<Longrightarrow> is_integral y \<Longrightarrow> is_integral (x - y)"
  "is_integral x \<Longrightarrow> is_integral y \<Longrightarrow> is_integral (max x y)"
  "is_integral x \<Longrightarrow> is_integral y \<Longrightarrow> is_integral (min x y)"
  by (auto simp: is_integral_iff max_def min_def)

lemma is_integral_div10: "10 dvd i \<Longrightarrow> is_integral (of_int i / 10)"
  by (auto simp: is_integral_iff)

lemma round_half_even_of_int: "round_half_even (of_int m) = m"
  by (simp add: round_half_even_def Let_def)

lemma binary64_of_int:
  assumes "\<bar>i\<bar> < 2 ^ 53"
  shows "binary64 (of_int i) = of_int i"
proof (cases "i = 0")
  case True
  then show ?thesis by (simp add: binary64_def)
next
  case False
  define n where "n = \<bar>i\<bar>"
  have n: "0 < n" "n < 2 ^ 53"
    using False assms by (simp_all add: n_def)
  have abs: "\<bar>of_int i :: rat\<bar> = of_int n"
    by (simp add: n_def)
  have le: "bitlen n \<le> 53"
    using n(2) by (simp add: bitlen_le_iff_power)
  define s where "s = nat (53 - bitlen n)"
  have il: "ilog2 (of_int n) = bitlen n - 1"
    using n(1) by (simp add: ilog2_def)
  have u: "pow2 (ilog2 \<bar>of_int i\<bar> - 52) = 1 / 2 ^ s"
    unfolding abs il pow2_def s_def using le
    by (cases "bitlen n = 53") (simp_all add: algebra_simps)
  have "of_int i / (1 / 2 ^ s) = (of_int (i * 2 ^ s) :: rat)"
    by simp
  then have "round_half_even (of_int i / (1 / 2 ^ s)) = i * 2 ^ s"
    by (simp only: round_half_even_of_int)
  then show ?thesis
    using False by (simp add: binary64_def Let_def u)
qed

lemma whole_exact_binary64: "whole_exact binary64"
  by (simp add: whole_exact_def binary64_of_int)

lemma whole_exact_exact: "whole_exact exact"
  by (simp add: whole_exact_def exact_def)

lemma rnd_whole:
  assumes "whole_exact rnd" and "is_integral x" and "- (2 ^ 53) < x" and "x < 2 ^ 53"
  shows "rnd x = x"
proof -
  from assms(2) have x: "x = of_int \<lfloor>x\<rfloor>"
    unfolding is_integral_def by (rule sym)
  from assms(3,4) have "\<bar>\<lfloor>x\<rfloor>\<bar> < 2 ^ 53"
    by (subst (asm) (1 2) x) (simp add: abs_less_iff)
  with assms(1) have "rnd (of_int \<lfloor>x\<rfloor>) = of_int \<lfloor>x\<rfloor>"
    by (simp add: whole_exact_def)
  with x show ?thesis by simp
qed

lemma rnd_small:
  "whole_exact rnd \<Longrightarrow> is_integral x \<Longrightarrow> - 200 \<le> x \<Longrightarrow> x \<le> 200 \<Longrightarrow> rnd x = x"
  by (rule rnd_whole) simp_all

lemma binary64_numeral:
  "(numeral n :: int) < 2 ^ 53 \<Longrightarrow> binary64 (numeral n) = numeral n"
  "(numeral n :: int) < 2 ^ 53 \<Longrightarrow> binary64 (- numeral n) = - numeral n"
  "binary64 1 = 1"
  using binary64_of_int [of "numeral n"] binary64_of_int [of "- numeral n"]
    binary64_of_int [of 1]
  by simp_all

lemma binary64_values_1:
  "binary64 (3 / 2) = 3 / 2"
  "binary64 (1 / 5) = 3602879701896397 / 18014398509481984"
  "binary64 (1 / 10) = 3602879701896397 / 36028797018963968"
  "binary64 (3602879701896397 / 36028797018963968) = 3602879701896397 / 36028797018963968"
  "binary64 (10808639105689191 / 36028797018963968) = 1351079888211149 / 4503599627370496"
  "binary64 (2 / 5) = 3602879701896397 / 9007199254740992"
  by code_simp+

lemma binary64_values_2:
  "binary64 (1351079888211149 / 4503599627370496) = 1351079888211149 / 4503599627370496"
  "binary64 (6305039478318695 / 9007199254740992) = 6305039478318695 / 9007199254740992"
  "binary64 (2702159776422298 / 6305039478318695) = 1930114126015927 / 4503599627370496"
  "binary64 (3602879701896397 / 6305039478318695) = 2573485501354569 / 4503599627370496"
  "binary64 (7 / 10) = 3152519739159347 / 4503599627370496"
  "binary64 (3 / 10) = 5404319552844595 / 18014398509481984"
  by code_simp+

lemma binary64_values_3:
  "binary64 (18014398509481985 / 18014398509481984) = 1"
  "binary64 (39631676720860365 / 36028797018963968) = 2476979795053773 / 2251799813685248"
  "binary64 (1351079888211149 / 4953959590107546) = 4913017775313269 / 18014398509481984"
  "binary64 (3602879701896397 / 9907919180215092) = 3275345183542179 / 9007199254740992"
  "binary64 (5404319552844595 / 19815838360430184) = 1228254443828317 / 4503599627370496"
  "binary64 (3602879701896397 / 39631676720860368) = 3275345183542179 / 36028797018963968"
  by code_simp+

lemma binary64_values_4:
  "binary64 (11323336205960105 / 18014398509481984) = 1415417025745013 / 2251799813685248"
  "binary64 (13896821707314673 / 18014398509481984) = 868551356707167 / 1125899906842624"
  "binary64 (1415417025745013 / 2251799813685248) = 1415417025745013 / 2251799813685248"
  "binary64 (3152519739159347 / 2251799813685248) = 3152519739159347 / 2251799813685248"
  "binary64 (1415417025745013 / 3152519739159347) = 8088097289971503 / 18014398509481984"
  "binary64 (1737102713414334 / 3152519739159347) = 620393826219405 / 1125899906842624"
  by code_simp+

lemma binary64_values_5:
  "binary64 (8088097289971503 / 18014398509481984) = 8088097289971503 / 18014398509481984"
  "binary64 (18014398509481983 / 18014398509481984) = 1"
  "binary64 (75 / 2) = 75 / 2"
  "binary64 (4913017775313269 / 18014398509481984) = 4913017775313269 / 18014398509481984"
  "binary64 (11463708142397627 / 18014398509481984) = 2865927035599407 / 4503599627370496"
  "binary64 (1023545369856931 / 1125899906842624) = 1023545369856931 / 1125899906842624"
  by code_simp+

lemma binary64_values_6:
  "binary64 (36028797018963971 / 36028797018963968) = 1"
  "binary64 (135107988821114875 / 18014398509481984) = 15 / 2"
  by code_simp+

lemmas binary64_values = binary64_values_1 binary64_values_2 binary64_values_3 binary64_values_4 binary64_values_5 binary64_values_6

lemma float_order_init:
  "order_init binary64 [] 2 example_draws = Inr (float_outcomes, example_order)"
  by (simp add: order_init_def generate_possible_outcomes_def alloc_def binary64_values
      binary64_numeral example_draws_def float_outcomes_def example_order_def resource_kinds_def Let_def)

lemma float_order_init4:
  "order_init binary64 [] 2 (example_draws\<lparr>draw_num_outcomes := 4\<rparr>) =
     Inr (float_outcomes4, example_order\<lparr>possible_outcomes := [0, 1, 2, 3]\<rparr>)"
  by (simp add: order_init_def generate_possible_outcomes_def alloc_def binary64_values
      binary64_numeral example_draws_def float_outcomes4_def example_order_def resource_kinds_def Let_def)

lemmas float_defs = prepare_order_def float_kitchen_def float_kitchen4_def float_outcomes_def
  float_outcomes4_def example_kitchen_def example_kitchen4_def kitchen_init_def
  example_order_def resource_kinds_def collapse_state_def Let_def apply_outcome_def
  py_int_def binary64_values binary64_numeral floor_numeral_div

lemma binary64_values_bias4_1:
  "binary64 (4257948738604833 / 9007199254740992) = 4257948738604833 / 9007199254740992"
  "binary64 (10153570068980755 / 18014398509481984) = 2538392517245189 / 4503599627370496"
  "binary64 (6223155848730139 / 36028797018963968) = 6223155848730139 / 36028797018963968"
  "binary64 (- (163767259177109 / 18014398509481984)) = - (163767259177109 / 18014398509481984)"
  "binary64 (9334733773095211 / 9007199254740992) = 2333683443273803 / 2251799813685248"
  "binary64 (43562090941110987 / 36028797018963968) = 5445261367638873 / 4503599627370496"
  by code_simp+

lemma binary64_values_bias4_2:
  "binary64 (21617278211378383 / 18014398509481984) = 1351079888211149 / 1125899906842624"
  "binary64 (4257948738604833 / 10808639105689192) = 3548290615504027 / 9007199254740992"
  "binary64 (2538392517245189 / 5404319552844596) = 8461308390817295 / 18014398509481984"
  "binary64 (6223155848730139 / 43234556422756768) = 5185963207275115 / 36028797018963968"
  "binary64 (- (163767259177109 / 21617278211378384)) = - (8734253822779145 / 1152921504606846976)"
  "binary64 (3548290615504027 / 9007199254740992) = 3548290615504027 / 9007199254740992"
  by code_simp+

lemma binary64_values_bias4_3:
  "binary64 (15557889621825349 / 18014398509481984) = 3889472405456337 / 4503599627370496"
  by code_simp+

lemmas binary64_values_bias4 = binary64_values_bias4_1 binary64_values_bias4_2 binary64_values_bias4_3


lemmas kitchen_defs = generate_orders_def order_init_def generate_possible_outcomes_def
  alloc_def accept_order_def pop_def update_time_def update_time_order_def
  trigger_special_event_def kitchen_init_def example_draws_def resource_kinds_def Let_def
  binary64_values binary64_numeral

lemma set_probability_satisfaction:
  "map satisfaction (D[r := (D ! r)\<lparr>probability := p\<rparr>]) = map satisfaction D"
proof (cases "r < length D")
  case True
  then show ?thesis
    by (auto simp: list_eq_iff_nth_eq nth_list_update)
next
  case False
  then have "D[r := (D ! r)\<lparr>probability := p\<rparr>] = D"
    by (intro list_update_beyond) simp
  then show ?thesis by simp
qed

lemma normalize_loop_satisfaction:
  "normalize_loop rnd D t rs = Inr D' \<Longrightarrow> map satisfaction D' = map satisfaction D"
proof (induction rs arbitrary: D)
  case Nil
  then show ?case by simp
next
  case (Cons r rs)
  then show ?case
    by (auto split: if_splits simp: set_probability_satisfaction
        dest!: Cons.IH)
qed

lemma bias_loop_satisfaction:
  "bias_loop rnd D b n rs = Inr D' \<Longrightarrow> map satisfaction D' = map satisfaction D"
proof (induction rs arbitrary: D)
  case Nil
  then show ?case by simp
next
  case (Cons r rs)
  then show ?case
    by (auto split: if_splits simp: set_probability_satisfaction
        dest!: Cons.IH)
qed

lemma select_loop_mem: "select_loop rnd D rand c rs = Some a \<Longrightarrow> a \<in> set rs"
  by (induction rs arbitrary: c) (auto simp: Let_def split: if_splits)

lemma collapse_state_outcome:
  assumes "collapse_state rnd D self b rand = Inr (D', self')"
    and "state self = SUPERPOSITION" and "actual_outcome self = None"
    and "actual_outcome self' = Some a"
  shows "a \<in> set (possible_outcomes self) \<and> map satisfaction D' = map satisfaction D"
proof -
  from assms(1,2) have sat: "map satisfaction D' = map satisfaction D"
    by (auto simp: collapse_state_def Let_def split: if_splits sum.splits
        dest!: normalize_loop_satisfaction bias_loop_satisfaction)
  from assms have "select_loop rnd D' rand 0 (possible_outcomes self) = Some a"
    by (auto simp: collapse_state_def Let_def split: if_splits sum.splits option.splits)
  with sat show ?thesis by (simp add: select_loop_mem)
qed

lemma apply_outcome_fields:
  "customer_satisfaction (snd (apply_outcome rnd k self out rr)) =
     min 100 (max 0 (rnd (customer_satisfaction k + rnd (of_int (satisfaction out - 50) / 10))))"
  "reality_stability (snd (apply_outcome rnd k self out rr)) =
     (if satisfaction out < 50
      then max 0 (rnd (reality_stability k - rnd (of_int (50 - satisfaction out) / 10)))
      else reality_stability k)"
  "outcomes (snd (apply_outcome rnd k self out rr)) = outcomes k"
  "orders (snd (apply_outcome rnd k self out rr)) = orders k"
  by (simp_all add: apply_outcome_def Let_def)

lemma clamp_ok:
  "is_integral x \<Longrightarrow>
     is_integral (min 100 (max 0 x)) \<and> 0 \<le> min 100 (max 0 x) \<and> min 100 (max 0 x) \<le> 100"
  by (simp add: is_integral_simps)

lemma floor_ok:
  "is_integral x \<Longrightarrow> x \<le> 100 \<Longrightarrow>
     is_integral (max 0 x) \<and> 0 \<le> max 0 x \<and> max 0 x \<le> 100"
  by (simp add: is_integral_simps)

lemma cap_ok:
  "is_integral x \<Longrightarrow> 0 \<le> x \<Longrightarrow>
     is_integral (min 100 x) \<and> 0 \<le> min 100 x \<and> min 100 x \<le> 100"
  by (simp add: is_integral_simps)

lemma apply_outcome_whole:
  assumes "whole_exact rnd" and "meters_ok k" and "10 dvd satisfaction out"
    and "0 \<le> satisfaction out" and "satisfaction out \<le> 100"
  shows "customer_satisfaction (snd (apply_outcome rnd k self out rr)) =
           min 100 (max 0 (customer_satisfaction k + of_int (satisfaction out - 50) / 10))"
    and "reality_stability (snd (apply_outcome rnd k self out rr)) =
           (if satisfaction out < 50
            then max 0 (reality_stability k - of_int (50 - satisfaction out) / 10)
            else reality_stability k)"
proof -
  define delta :: rat where "delta = of_int (satisfaction out - 50) / 10"
  define loss :: rat where "loss = of_int (50 - satisfaction out) / 10"
  have delta: "is_integral delta"
    unfolding delta_def using assms(3) by (intro is_integral_div10) presburger
  have loss: "is_integral loss"
    unfolding loss_def using assms(3) by (intro is_integral_div10) presburger
  have db: "- 5 \<le> delta" "delta \<le> 5"
    unfolding delta_def using assms(4,5) by simp_all
  have lb: "- 5 \<le> loss" "loss \<le> 5"
    unfolding loss_def using assms(4,5) by simp_all
  from assms(2) have k: "is_integral (customer_satisfaction k)"
    "0 \<le> customer_satisfaction k" "customer_satisfaction k \<le> 100"
    "is_integral (reality_stability k)" "0 \<le> reality_stability k" "reality_stability k \<le> 100"
    by (simp_all add: meters_ok_def)
  have r1: "rnd delta = delta"
    using assms(1) delta db by (intro rnd_small) simp_all
  have r2: "rnd loss = loss"
    using assms(1) loss lb by (intro rnd_small) simp_all
  have "is_integral (customer_satisfaction k + delta)"
    using k(1) delta by (rule is_integral_simps)
  then have r3: "rnd (customer_satisfaction k + delta) = customer_satisfaction k + delta"
    using assms(1) db k(2,3) by (intro rnd_small) simp_all
  have "is_integral (reality_stability k - loss)"
    using k(4) loss by (rule is_integral_simps)
  then have r4: "rnd (reality_stability k - loss) = reality_stability k - loss"
    using assms(1) lb k(5,6) by (intro rnd_small) simp_all
  show "customer_satisfaction (snd (apply_outcome rnd k self out rr)) =
           min 100 (max 0 (customer_satisfaction k + of_int (satisfaction out - 50) / 10))"
    unfolding apply_outcome_fields delta_def [symmetric] by (simp only: r1 r3)
  show "reality_stability (snd (apply_outcome rnd k self out rr)) =
           (if satisfaction out < 50
            then max 0 (reality_stability k - of_int (50 - satisfaction out) / 10)
            else reality_stability k)"
    unfolding apply_outcome_fields loss_def [symmetric] by (simp only: r2 r4)
qed

lemma apply_outcome_meters:
  assumes "whole_exact rnd" and "meters_ok k" and "10 dvd satisfaction out"
    and "0 \<le> satisfaction out" and "satisfaction out \<le> 100"
  shows "meters_ok (snd (apply_outcome rnd k self out rr))"
proof -
  define delta :: rat where "delta = of_int (satisfaction out - 50) / 10"
  define loss :: rat where "loss = of_int (50 - satisfaction out) / 10"
  have delta: "is_integral delta"
    unfolding delta_def using assms(3) by (intro is_integral_div10) presburger
  have loss: "is_integral loss"
    unfolding loss_def using assms(3) by (intro is_integral_div10) presburger
  have pos: "satisfaction out < 50 \<Longrightarrow> 0 \<le> loss"
    unfolding loss_def by simp
  from assms(2) have k: "is_integral (customer_satisfaction k)"
    "is_integral (reality_stability k)" "0 \<le> reality_stability k" "reality_stability k \<le> 100"
    by (simp_all add: meters_ok_def)
  have cs: "is_integral (customer_satisfaction k + delta)"
    using k(1) delta by (rule is_integral_simps)
  have rs: "is_integral (reality_stability k - loss)"
    using k(2) loss by (rule is_integral_simps)
  have le: "satisfaction out < 50 \<Longrightarrow> reality_stability k - loss \<le> 100"
    using pos k(4) by linarith
  show ?thesis
    unfolding meters_ok_def apply_outcome_whole [OF assms]
      delta_def [symmetric] loss_def [symmetric]
    using clamp_ok [OF cs] floor_ok [OF rs le] k by simp
qed

lemma prepare_order_success:
  assumes "prepare_order rnd k order_idx pc rand rr = Inr ((True, msg), k')"
  shows "0 \<le> order_idx \<and> order_idx < int (length (active_orders k)) \<and>
         state (orders k ! (active_orders k ! nat order_idx)) = SUPERPOSITION \<and>
         check_resources (resources k)
           (resource_requirements (orders k ! (active_orders k ! nat order_idx)))
           resource_kinds = None"
  using assms
  by (auto simp: prepare_order_def Let_def split: if_splits option.splits)

lemma prepare_order_unchanged_or_applied:
  assumes "prepare_order rnd k order_idx pc rand rr = Inr (res, k')"
  shows "k' = k \<or>
         (\<exists>D' self' a k1.
            collapse_state rnd (outcomes k) (orders k ! (active_orders k ! nat order_idx))
              (if pc then rnd (1 / 5) else 0) rand = Inr (D', self') \<and>
            state (orders k ! (active_orders k ! nat order_idx)) = SUPERPOSITION \<and>
            actual_outcome self' = Some a \<and>
            customer_satisfaction k1 = customer_satisfaction k \<and>
            reality_stability k1 = reality_stability k \<and>
            outcomes k1 = D' \<and>
            orders k1 = (orders k)[active_orders k ! nat order_idx := self'] \<and>
            (res, k') = apply_outcome rnd k1 self' (D' ! a) rr)"
proof (cases "0 \<le> order_idx \<and> order_idx < int (length (active_orders k)) \<and>
    state (orders k ! (active_orders k ! nat order_idx)) = SUPERPOSITION \<and>
    check_resources (resources k)
      (resource_requirements (orders k ! (active_orders k ! nat order_idx)))
      resource_kinds = None")
  case False
  with assms have "k' = k"
    by (auto simp: prepare_order_def Let_def split: if_splits option.splits)
  then show ?thesis ..
next
  case True
  let ?r = "active_orders k ! nat order_idx"
  let ?b = "if pc then rnd (1 / 5) else 0"
  obtain c where c: "collapse_state rnd (outcomes k) (orders k ! ?r) ?b rand = c"
    by simp
  from True have t: "0 \<le> order_idx" "order_idx < int (length (active_orders k))"
    "state (orders k ! ?r) = SUPERPOSITION"
    "check_resources (resources k) (resource_requirements (orders k ! ?r)) resource_kinds = None"
    by simp_all
  note eq = prepare_order_enough [OF t c, of rr]
  from assms eq obtain D' self' where c': "c = Inr (D', self')"
    by (cases c) auto
  with assms eq obtain a where a: "actual_outcome self' = Some a"
    by (cases "actual_outcome self'") auto
  let ?k1 = "k\<lparr>resources := (\<lambda>kind. resources k kind -
                  resource_requirements (orders k ! ?r) kind),
                outcomes := D', orders := (orders k)[?r := self']\<rparr>"
  from assms eq c' a have "(res, k') = apply_outcome rnd ?k1 self' (D' ! a) rr"
    by simp
  with c c' a t(3) show ?thesis
    by (intro disjI2 exI [of _ D'] exI [of _ self'] exI [of _ a] exI [of _ ?k1]) simp
qed

lemma expire_loop_meters:
  "whole_exact rnd \<Longrightarrow> meters_ok k \<Longrightarrow> meters_ok (expire_loop rnd k rs)"
proof (induction rs arbitrary: k)
  case Nil
  then show ?case by simp
next
  case (Cons r rs)
  from Cons.prems(2) have k: "is_integral (customer_satisfaction k - 5)"
    "customer_satisfaction k - 5 \<le> 100" "is_integral (reality_stability k - 5)"
    "reality_stability k - 5 \<le> 100"
    and lo: "- 200 \<le> customer_satisfaction k - 5" "- 200 \<le> reality_stability k - 5"
    by (auto simp: meters_ok_def intro!: is_integral_simps)
  have e: "rnd (customer_satisfaction k - 5) = customer_satisfaction k - 5"
    "rnd (reality_stability k - 5) = reality_stability k - 5"
    using Cons.prems(1) k lo by (auto intro!: rnd_small)
  have "meters_ok (k\<lparr>active_orders := remove1 r (active_orders k),
          failed_orders := failed_orders k @ [r],
          customer_satisfaction := max 0 (rnd (customer_satisfaction k - 5)),
          reality_stability := max 0 (rnd (reality_stability k - 5))\<rparr>)"
    using floor_ok [OF k(1,2)] floor_ok [OF k(3,4)]
    by (simp add: meters_ok_def e)
  with Cons.prems(1) show ?case
    by (simp add: Cons.IH)
qed

lemma penalty_loop_ok:
  "whole_exact rnd \<Longrightarrow> is_integral cs \<Longrightarrow> 0 \<le> cs \<Longrightarrow> cs \<le> 100 \<Longrightarrow>
     is_integral (penalty_loop rnd cs rs) \<and> 0 \<le> penalty_loop rnd cs rs \<and>
     penalty_loop rnd cs rs \<le> 100"
proof (induction rs arbitrary: cs)
  case Nil
  then show ?case by simp
next
  case (Cons r rs)
  from Cons.prems have k: "is_integral (cs - 3)" "cs - 3 \<le> 100"
    and lo: "- 200 \<le> cs - 3"
    by (auto intro!: is_integral_simps)
  have e: "rnd (cs - 3) = cs - 3"
    using Cons.prems(1) k lo by (auto intro!: rnd_small)
  have "is_integral (max 0 (rnd (cs - 3))) \<and> 0 \<le> max 0 (rnd (cs - 3)) \<and>
        max 0 (rnd (cs - 3)) \<le> 100"
    using floor_ok [OF k] by (simp add: e)
  with Cons.prems(1) show ?case
    by (simp add: Cons.IH)
qed

lemma shift_loop_meters:
  "customer_satisfaction (shift_loop k draws i rs) = customer_satisfaction k \<and>
   reality_stability (shift_loop k draws i rs) = reality_stability k"
  by (induction rs arbitrary: k i) simp_all

lemma trigger_special_event_meters:
  assumes "whole_exact rnd" and "meters_ok k"
    and "0 \<le> draw_stability_loss dr" and "draw_stability_loss dr < 2 ^ 53"
  shows "meters_ok (trigger_special_event rnd k dr)"
proof (cases "draw_event dr")
  case REALITY_DISTORTION
  from assms(2,3) have k: "is_integral (reality_stability k - of_int (draw_stability_loss dr))"
    "reality_stability k - of_int (draw_stability_loss dr) \<le> 100"
    by (auto simp: meters_ok_def intro!: is_integral_simps)
  from assms(4) have "(of_int (draw_stability_loss dr) :: rat) < 2 ^ 53"
    by simp
  with assms(2) have "- (2 ^ 53) < reality_stability k - of_int (draw_stability_loss dr)"
    by (simp add: meters_ok_def)
  with k have "rnd (reality_stability k - of_int (draw_stability_loss dr)) =
      reality_stability k - of_int (draw_stability_loss dr)"
    by (intro rnd_whole [OF assms(1)]) simp_all
  then show ?thesis
    using floor_ok [OF k] assms(2) REALITY_DISTORTION
    by (simp add: trigger_special_event_def meters_ok_def)
qed (use assms(2) in \<open>auto simp: trigger_special_event_def meters_ok_def Let_def
      shift_loop_meters\<close>)

lemma advance_day_meters:
  assumes "whole_exact rnd" and "meters_ok k"
    and "0 \<le> draw_stability_loss dr" and "draw_stability_loss dr < 2 ^ 53"
  shows "meters_ok (advance_day rnd k roll dr)"
proof -
  define k1 where "k1 = (if roll < rnd (3 / 10) then trigger_special_event rnd k dr else k)"
  have k1: "meters_ok k1"
    unfolding k1_def using assms by (simp add: trigger_special_event_meters)
  define gain :: rat where "gain = 5 + of_int \<lfloor>customer_satisfaction k1 / 20\<rfloor>"
  have "0 \<le> customer_satisfaction k1 / 20" "customer_satisfaction k1 / 20 \<le> 5"
    using k1 by (simp_all add: meters_ok_def)
  then have "0 \<le> \<lfloor>customer_satisfaction k1 / 20\<rfloor>" "\<lfloor>customer_satisfaction k1 / 20\<rfloor> \<le> 5"
    by (simp_all add: floor_le_iff)
  then have gain: "0 \<le> gain" "gain \<le> 10" "is_integral gain"
    unfolding gain_def by (auto intro!: is_integral_simps)
  from k1 gain have rs: "is_integral (reality_stability k1 + gain)"
    "0 \<le> reality_stability k1 + gain" "reality_stability k1 + gain \<le> 200"
    by (auto simp: meters_ok_def intro!: is_integral_simps)
  then have e: "rnd (reality_stability k1 + gain) = reality_stability k1 + gain"
    by (intro rnd_small [OF assms(1)]) simp_all
  have cs: "customer_satisfaction (advance_day rnd k roll dr) = customer_satisfaction k1"
    and rs': "reality_stability (advance_day rnd k roll dr) =
       min 100 (rnd (reality_stability k1 + gain))"
    by (simp_all add: advance_day_def Let_def k1_def gain_def)
  show ?thesis
    unfolding meters_ok_def cs rs' e
    using cap_ok [OF rs(1,2)] k1 by (simp add: meters_ok_def)
qed

lemma order_ok_outcome:
  assumes "order_ok D self" and "state self = SUPERPOSITION"
    and "collapse_state rnd D self b rand = Inr (D', self')"
    and "actual_outcome self' = Some a"
  shows "10 dvd satisfaction (D' ! a) \<and> 0 \<le> satisfaction (D' ! a) \<and>
         satisfaction (D' ! a) \<le> 100"
proof -
  from assms(1) have none: "actual_outcome self = None"
    and refs: "\<forall>a \<in> set (possible_outcomes self).
        a < length D \<and> 10 dvd satisfaction (D ! a) \<and>
        0 \<le> satisfaction (D ! a) \<and> satisfaction (D ! a) \<le> 100"
    by (simp_all add: order_ok_def)
  from collapse_state_outcome [OF assms(3,2) none assms(4)]
  have mem: "a \<in> set (possible_outcomes self)"
    and sat: "map satisfaction D' = map satisfaction D"
    by simp_all
  from mem refs have lt: "a < length D"
    and ok: "10 dvd satisfaction (D ! a)" "0 \<le> satisfaction (D ! a)"
      "satisfaction (D ! a) \<le> 100"
    by simp_all
  from sat have "length D' = length D"
    by (metis length_map)
  with sat lt have "satisfaction (D' ! a) = satisfaction (D ! a)"
    by (metis nth_map)
  with ok show ?thesis by simp
qed

lemma prepare_order_meters:
  assumes "whole_exact rnd" and "meters_ok k"
    and "order_ok (outcomes k) (orders k ! (active_orders k ! nat order_idx))"
    and "prepare_order rnd k order_idx pc rand rr = Inr (res, k')"
  shows "meters_ok k'"
proof -
  from prepare_order_unchanged_or_applied [OF assms(4)]
  show ?thesis
  proof (elim disjE exE conjE)
    assume "k' = k"
    with assms(2) show ?thesis by simp
  next
    fix D' self' a k1
    let ?self = "orders k ! (active_orders k ! nat order_idx)"
    assume coll: "collapse_state rnd (outcomes k) ?self
          (if pc then rnd (1 / 5) else 0) rand = Inr (D', self')"
      and st: "state ?self = SUPERPOSITION"
      and a: "actual_outcome self' = Some a"
      and k1: "customer_satisfaction k1 = customer_satisfaction k"
        "reality_stability k1 = reality_stability k"
      and res: "(res, k') = apply_outcome rnd k1 self' (D' ! a) rr"
    from order_ok_outcome [OF assms(3) st coll a]
    have ok: "10 dvd satisfaction (D' ! a)" "0 \<le> satisfaction (D' ! a)"
      "satisfaction (D' ! a) \<le> 100"
      by simp_all
    from assms(2) k1 have "meters_ok k1" by (simp add: meters_ok_def)
    from apply_outcome_meters [OF assms(1) this ok, of self' rr] res [symmetric]
    show ?thesis by simp
  qed
qed

section \<open>Order: time update and collapse\<close>

text \<open>
  C6. For every order in SUPERPOSITION, \<^verbatim>\<open>Order.update_time\<close> decrements
  \<open>time_remaining\<close> by exactly 1; when the new value is at most 0 the order becomes FAILED
  and the call returns true, otherwise it returns false and the order stays in
  SUPERPOSITION. Nothing else of the order changes. The witness runs the two cases the
  claim names: from \<open>time_remaining = 1\<close> the call returns true and the state is FAILED;
  from \<open>time_remaining = 2\<close> it returns false, \<open>time_remaining\<close> is 1 and the state is
  still SUPERPOSITION.
\<close>

theorem update_time_order_superposition:
  "state self = SUPERPOSITION \<Longrightarrow>
     update_time_order self =
       (self\<lparr>time_remaining := time_remaining self - 1,
             state := (if time_remaining self - 1 \<le> 0 then FAILED else SUPERPOSITION)\<rparr>,
        time_remaining self - 1 \<le> 0)"
  by (simp add: update_time_order_def Let_def)

theorem update_time_order_superposition_witness:
  "state example_order = SUPERPOSITION \<and>
   update_time_order (example_order\<lparr>time_remaining := 1\<rparr>) =
     (example_order\<lparr>time_remaining := 0, state := FAILED\<rparr>, True) \<and>
   update_time_order (example_order\<lparr>time_remaining := 2\<rparr>) =
     (example_order\<lparr>time_remaining := 1\<rparr>, False)"
  using update_time_order_superposition [of "example_order\<lparr>time_remaining := 1\<rparr>"]
    update_time_order_superposition [of "example_order\<lparr>time_remaining := 2\<rparr>"]
  by (simp add: example_order_def)

text \<open>
  C7. \<^verbatim>\<open>collapse_state\<close> on an order that is not in SUPERPOSITION (COLLAPSED, FAILED or
  DELIVERED) is a no-op for every bonus probability, every random draw and either
  arithmetic: the order (its state, \<open>actual_outcome\<close>, \<open>possible_outcomes\<close>,
  \<open>time_remaining\<close> and every other field) and the store of outcome dicts are returned
  unchanged, and nothing is raised.
\<close>

theorem collapse_state_not_superposition:
  "state self \<noteq> SUPERPOSITION \<Longrightarrow>
     collapse_state rnd D self bonus_probability rand = Inr (D, self)"
  by (simp add: collapse_state_def)

theorem collapse_state_not_superposition_witness:
  "state (example_order\<lparr>state := COLLAPSED, actual_outcome := Some 1\<rparr>) \<noteq> SUPERPOSITION \<and>
   collapse_state exact [] (example_order\<lparr>state := COLLAPSED, actual_outcome := Some 1\<rparr>)
       (1 / 5) (1 / 2) =
     Inr ([], example_order\<lparr>state := COLLAPSED, actual_outcome := Some 1\<rparr>)"
  using collapse_state_not_superposition
    [of "example_order\<lparr>state := COLLAPSED, actual_outcome := Some 1\<rparr>" exact "[]" "1 / 5" "1 / 2"]
  by (simp add: example_order_def)

section \<open>KuantumKitchen: preparing an order\<close>



text \<open>
  C10. Every successful \<^verbatim>\<open>prepare_order\<close> moves the customer satisfaction by the tenth of
  the collapsed outcome's satisfaction score minus 50, and clamps the result to the range
  0 to 100 (lines 444-446); the order is then found in the store with its
  \<open>actual_outcome\<close> set. This holds for every arithmetic \<open>rnd\<close>, with the two roundings of
  the division and of the addition. When the arithmetic returns whole numbers unrounded,
  as the floats of the program do, and the kitchen is one the program reaches (whole
  meters in range, scores that are multiples of 10 between 0 and 100), nothing is rounded:
  the new satisfaction is the old one plus \<open>(score - 50) / 10\<close>, clamped. The witness runs
  the program's arithmetic: a Perfect outcome (score 100) moves the meter from 50 to 55
  and a Poor outcome (score 20) moves it from 50 to 47.
\<close>

theorem prepare_order_satisfaction_shift:
  assumes "prepare_order rnd k order_idx puzzle_completed rand refund_resource =
             Inr ((True, msg), k')"
    and "active_orders k ! nat order_idx < length (orders k)"
  shows "\<exists>a. actual_outcome (orders k' ! (active_orders k ! nat order_idx)) = Some a \<and>
           customer_satisfaction k' =
             min 100 (max 0 (rnd (customer_satisfaction k +
               rnd (of_int (satisfaction (outcomes k' ! a) - 50) / 10)))) \<and>
           (whole_exact rnd \<and> meters_ok k \<and>
            order_ok (outcomes k) (orders k ! (active_orders k ! nat order_idx)) \<longrightarrow>
              customer_satisfaction k' =
                min 100 (max 0 (customer_satisfaction k +
                  of_int (satisfaction (outcomes k' ! a) - 50) / 10)))"
proof -
  let ?r = "active_orders k ! nat order_idx"
  let ?b = "if puzzle_completed then rnd (1 / 5) else 0"
  obtain c where c: "collapse_state rnd (outcomes k) (orders k ! ?r) ?b rand = c"
    by simp
  note ok = prepare_order_success [OF assms(1)]
  from ok
  have eq: "prepare_order rnd k order_idx puzzle_completed rand refund_resource =
     (case c of
        Inl e \<Rightarrow> Inl e
      | Inr (D', self') \<Rightarrow>
          (case actual_outcome self' of
             None \<Rightarrow> Inl TypeError
           | Some a \<Rightarrow>
               Inr (apply_outcome rnd
                      (k\<lparr>resources := (\<lambda>kind. resources k kind -
                             resource_requirements (orders k ! ?r) kind),
                         outcomes := D', orders := (orders k)[?r := self']\<rparr>)
                      self' (D' ! a) refund_resource)))"
    using c by (intro prepare_order_enough) simp_all
  show ?thesis
  proof (cases c)
    case (Inl e)
    with eq assms(1) show ?thesis by simp
  next
    case (Inr p)
    obtain D' self' where p: "p = (D', self')" by (cases p)
    show ?thesis
    proof (cases "actual_outcome self'")
      case None
      with eq assms(1) Inr p show ?thesis by simp
    next
      case (Some a)
      let ?k1 = "k\<lparr>resources := (\<lambda>kind. resources k kind -
                             resource_requirements (orders k ! ?r) kind),
                         outcomes := D', orders := (orders k)[?r := self']\<rparr>"
      from eq assms(1) Inr p Some
      have k': "k' = snd (apply_outcome rnd ?k1 self' (D' ! a) refund_resource)"
        by (simp add: prod_eq_iff)
      have rounded: "customer_satisfaction k' =
          min 100 (max 0 (rnd (customer_satisfaction k +
            rnd (of_int (satisfaction (D' ! a) - 50) / 10))))"
        unfolding k' by (simp add: apply_outcome_fields)
      have D': "outcomes k' = D'"
        unfolding k' by (simp add: apply_outcome_fields)
      have self': "orders k' ! ?r = self'"
        unfolding k' using assms(2) by (simp add: apply_outcome_fields)
      have whole: "customer_satisfaction k' =
          min 100 (max 0 (customer_satisfaction k + of_int (satisfaction (D' ! a) - 50) / 10))"
        if w: "whole_exact rnd" and m: "meters_ok k" and o: "order_ok (outcomes k) (orders k ! ?r)"
      proof -
        from ok have st: "state (orders k ! ?r) = SUPERPOSITION" by simp
        from c Inr p have coll: "collapse_state rnd (outcomes k) (orders k ! ?r) ?b rand =
            Inr (D', self')"
          by simp
        from order_ok_outcome [OF o st coll Some]
        have sat: "10 dvd satisfaction (D' ! a)" "0 \<le> satisfaction (D' ! a)"
          "satisfaction (D' ! a) \<le> 100"
          by simp_all
        from m have "meters_ok ?k1" by (simp add: meters_ok_def)
        from apply_outcome_whole(1) [OF w this sat, of self' refund_resource]
        show ?thesis unfolding k' by simp
      qed
      from rounded D' self' Some whole show ?thesis by simp
    qed
  qed
qed

theorem prepare_order_satisfaction_shift_witness:
  "whole_exact binary64 \<and>
   meters_ok float_kitchen \<and> order_ok (outcomes float_kitchen) (orders float_kitchen ! 0) \<and>
   customer_satisfaction float_kitchen = 50 \<and>
   (\<exists>k'. prepare_order binary64 float_kitchen 0 True (1 / 10) TIMELINE_TOKEN =
      Inr ((True, Prepared 1234 (Perfect, QUANTUM_BURGER) (Some 37) (Some (2, TIMELINE_TOKEN))), k') \<and>
      actual_outcome (orders k' ! 0) = Some 0 \<and> satisfaction (outcomes k' ! 0) = 100 \<and>
      customer_satisfaction k' = 55) \<and>
   meters_ok float_kitchen4 \<and> order_ok (outcomes float_kitchen4) (orders float_kitchen4 ! 0) \<and>
   customer_satisfaction float_kitchen4 = 50 \<and>
   (\<exists>k'. prepare_order binary64 float_kitchen4 0 False (19 / 20) TIMELINE_TOKEN =
      Inr ((True, Prepared 1234 (Poor, QUANTUM_BURGER) None None), k') \<and>
      actual_outcome (orders k' ! 0) = Some 3 \<and> satisfaction (outcomes k' ! 3) = 20 \<and>
      customer_satisfaction k' = 47)"
proof -
  have kitchens: "meters_ok float_kitchen \<and>
      order_ok (outcomes float_kitchen) (orders float_kitchen ! 0) \<and>
      customer_satisfaction float_kitchen = 50 \<and>
      active_orders float_kitchen ! nat 0 < length (orders float_kitchen) \<and>
      meters_ok float_kitchen4 \<and>
      order_ok (outcomes float_kitchen4) (orders float_kitchen4 ! 0) \<and>
      customer_satisfaction float_kitchen4 = 50 \<and>
      active_orders float_kitchen4 ! nat 0 < length (orders float_kitchen4)"
    by (simp add: float_defs meters_ok_def order_ok_def is_integral_simps)
  have "case prepare_order binary64 float_kitchen 0 True (1 / 10) TIMELINE_TOKEN of
          Inl e \<Rightarrow> False
        | Inr (res, k') \<Rightarrow>
            res = (True, Prepared 1234 (Perfect, QUANTUM_BURGER) (Some 37)
                           (Some (2, TIMELINE_TOKEN))) \<and>
            actual_outcome (orders k' ! 0) = Some 0 \<and> satisfaction (outcomes k' ! 0) = 100 \<and>
            customer_satisfaction k' = 55"
    by (simp add: float_defs meters_ok_def order_ok_def is_integral_simps)
  then obtain k1 where perfect:
    "prepare_order binary64 float_kitchen 0 True (1 / 10) TIMELINE_TOKEN =
       Inr ((True, Prepared 1234 (Perfect, QUANTUM_BURGER) (Some 37)
                     (Some (2, TIMELINE_TOKEN))), k1)"
    "actual_outcome (orders k1 ! 0) = Some 0" "satisfaction (outcomes k1 ! 0) = 100"
    "customer_satisfaction k1 = 55"
    by (auto split: sum.splits)
  have "case prepare_order binary64 float_kitchen4 0 False (19 / 20) TIMELINE_TOKEN of
          Inl e \<Rightarrow> False
        | Inr (res, k') \<Rightarrow>
            res = (True, Prepared 1234 (Poor, QUANTUM_BURGER) None None) \<and>
            actual_outcome (orders k' ! 0) = Some 3 \<and> satisfaction (outcomes k' ! 3) = 20 \<and>
            customer_satisfaction k' = 47"
    by (simp add: float_defs meters_ok_def order_ok_def is_integral_simps)
  then obtain k2 where poor:
    "prepare_order binary64 float_kitchen4 0 False (19 / 20) TIMELINE_TOKEN =
       Inr ((True, Prepared 1234 (Poor, QUANTUM_BURGER) None None), k2)"
    "actual_outcome (orders k2 ! 0) = Some 3" "satisfaction (outcomes k2 ! 3) = 20"
    "customer_satisfaction k2 = 47"
    by (auto split: sum.splits)
  from kitchens have i1: "active_orders float_kitchen ! nat 0 < length (orders float_kitchen)"
    and i2: "active_orders float_kitchen4 ! nat 0 < length (orders float_kitchen4)"
    by simp_all
  from prepare_order_satisfaction_shift [OF perfect(1) i1]
    prepare_order_satisfaction_shift [OF poor(1) i2]
    perfect poor kitchens whole_exact_binary64
  show ?thesis by simp
qed


section \<open>KuantumKitchen: the range of the meters\<close>

text \<open>
  C8. Customer satisfaction and reality stability stay whole numbers in the range 0 to 100
  across the operations that change them: rejecting an order, preparing an order (whose
  outcomes carry satisfaction scores that are multiples of 10 between 0 and 100, as every
  generated outcome does), the passing of time with its expired orders, abandoning the
  active orders at the end of a day, a special event (with a stability loss that is not
  negative, and below \<open>2^53\<close>; the program draws it from 5 to 15) and the advance to the
  next day. This holds for every arithmetic that returns whole numbers unrounded, the
  floats of the program among them; the witness runs the program's arithmetic. The meter
  is a whole number in value (in the source \<^verbatim>\<open>prepare_order\<close> makes it a float of whole
  value).
\<close>

theorem meters_stay_in_range:
  assumes "whole_exact rnd" and "meters_ok k"
  shows "meters_ok (snd (reject_order rnd k order_idx)) \<and>
         (order_ok (outcomes k) (orders k ! (active_orders k ! nat order_idx)) \<longrightarrow>
            (\<forall>res k'. prepare_order rnd k order_idx puzzle_completed rand refund_resource =
                 Inr (res, k') \<longrightarrow> meters_ok k')) \<and>
         meters_ok (snd (update_time rnd k)) \<and>
         meters_ok (end_day_with_active_orders rnd k) \<and>
         (0 \<le> draw_stability_loss dr \<and> draw_stability_loss dr < 2 ^ 53 \<longrightarrow>
            meters_ok (trigger_special_event rnd k dr) \<and>
            meters_ok (advance_day rnd k roll dr))"
proof (intro conjI impI allI)
  from assms(2) have k: "is_integral (customer_satisfaction k - 2)"
    "customer_satisfaction k - 2 \<le> 100" and lo: "- 200 \<le> customer_satisfaction k - 2"
    by (auto simp: meters_ok_def intro!: is_integral_simps)
  have "rnd (customer_satisfaction k - 2) = customer_satisfaction k - 2"
    using assms(1) k lo by (auto intro!: rnd_small)
  then show "meters_ok (snd (reject_order rnd k order_idx))"
    using floor_ok [OF k] assms(2)
    by (simp add: reject_order_def meters_ok_def)
next
  fix res k'
  assume "order_ok (outcomes k) (orders k ! (active_orders k ! nat order_idx))"
    and "prepare_order rnd k order_idx puzzle_completed rand refund_resource = Inr (res, k')"
  with assms show "meters_ok k'"
    by (rule prepare_order_meters)
next
  have "meters_ok (k\<lparr>orders := os\<rparr>)" for os
    using assms(2) by (simp add: meters_ok_def)
  then show "meters_ok (snd (update_time rnd k))"
    using assms(1) by (simp add: update_time_def split_beta expire_loop_meters)
next
  from assms show "meters_ok (end_day_with_active_orders rnd k)"
    using penalty_loop_ok [of rnd "customer_satisfaction k" "active_orders k"]
    by (simp add: end_day_with_active_orders_def meters_ok_def)
next
  assume "0 \<le> draw_stability_loss dr \<and> draw_stability_loss dr < 2 ^ 53"
  with assms show "meters_ok (trigger_special_event rnd k dr)"
    by (simp add: trigger_special_event_meters)
next
  assume "0 \<le> draw_stability_loss dr \<and> draw_stability_loss dr < 2 ^ 53"
  with assms show "meters_ok (advance_day rnd k roll dr)"
    by (simp add: advance_day_meters)
qed

theorem meters_stay_in_range_witness:
  "whole_exact binary64 \<and>
   meters_ok float_kitchen \<and> order_ok (outcomes float_kitchen) (orders float_kitchen ! 0) \<and>
   customer_satisfaction (snd (reject_order binary64 (float_kitchen\<lparr>available_orders := [0]\<rparr>) 0)) = 48 \<and>
   meters_ok (snd (reject_order binary64 (float_kitchen\<lparr>available_orders := [0]\<rparr>) 0)) \<and>
   (\<exists>k'. prepare_order binary64 float_kitchen 0 True (1 / 2) TIMELINE_TOKEN =
          Inr ((True, Prepared 1234 (Good, QUANTUM_BURGER) (Some 25) (Some (1, TIMELINE_TOKEN))), k') \<and>
      customer_satisfaction k' = 53 \<and> reality_stability k' = 100 \<and> meters_ok k') \<and>
   meters_ok (snd (update_time binary64 float_kitchen)) \<and>
   meters_ok (end_day_with_active_orders binary64 float_kitchen) \<and>
   customer_satisfaction (end_day_with_active_orders binary64 float_kitchen) = 47 \<and>
   meters_ok (trigger_special_event binary64 float_kitchen example_event) \<and>
   reality_stability (trigger_special_event binary64 float_kitchen example_event) = 93 \<and>
   meters_ok (advance_day binary64 float_kitchen (1 / 10) example_event) \<and>
   reality_stability (advance_day binary64 float_kitchen (1 / 10) example_event) = 100"
proof -
  have run: "meters_ok float_kitchen \<and>
      order_ok (outcomes float_kitchen) (orders float_kitchen ! 0) \<and>
      customer_satisfaction
        (snd (reject_order binary64 (float_kitchen\<lparr>available_orders := [0]\<rparr>) 0)) = 48 \<and>
      meters_ok (snd (reject_order binary64 (float_kitchen\<lparr>available_orders := [0]\<rparr>) 0)) \<and>
      meters_ok (snd (update_time binary64 float_kitchen)) \<and>
      meters_ok (end_day_with_active_orders binary64 float_kitchen) \<and>
      customer_satisfaction (end_day_with_active_orders binary64 float_kitchen) = 47 \<and>
      meters_ok (trigger_special_event binary64 float_kitchen example_event) \<and>
      reality_stability (trigger_special_event binary64 float_kitchen example_event) = 93 \<and>
      meters_ok (advance_day binary64 float_kitchen (1 / 10) example_event) \<and>
      reality_stability (advance_day binary64 float_kitchen (1 / 10) example_event) = 100"
    by (simp add: float_defs meters_ok_def order_ok_def is_integral_simps example_event_def
        reject_order_def pop_def update_time_def update_time_order_def
        end_day_with_active_orders_def trigger_special_event_def advance_day_def)
  have "case prepare_order binary64 float_kitchen 0 True (1 / 2) TIMELINE_TOKEN of
          Inl e \<Rightarrow> False
        | Inr (res, k') \<Rightarrow>
            res = (True, Prepared 1234 (Good, QUANTUM_BURGER) (Some 25)
                           (Some (1, TIMELINE_TOKEN))) \<and>
            customer_satisfaction k' = 53 \<and> reality_stability k' = 100 \<and> meters_ok k'"
    by (simp add: float_defs meters_ok_def order_ok_def is_integral_simps example_event_def
        reject_order_def pop_def update_time_def update_time_order_def
        end_day_with_active_orders_def trigger_special_event_def advance_day_def)
  then obtain k1 where good:
    "prepare_order binary64 float_kitchen 0 True (1 / 2) TIMELINE_TOKEN =
       Inr ((True, Prepared 1234 (Good, QUANTUM_BURGER) (Some 25)
                     (Some (1, TIMELINE_TOKEN))), k1)"
    "customer_satisfaction k1 = 53" "reality_stability k1 = 100" "meters_ok k1"
    by (auto split: sum.splits)
  from run have m: "meters_ok float_kitchen" by simp
  from meters_stay_in_range [OF whole_exact_binary64 m, of 0 True "1 / 2" TIMELINE_TOKEN
      example_event "1 / 10"]
    run good whole_exact_binary64
  show ?thesis by simp
qed

section \<open>Order: the outcome dicts are shared\<close>

text \<open>
  C3. \<^verbatim>\<open>self.possible_outcomes.copy()\<close> copies the list and not the dicts in it, so with a
  positive bonus the bias and the re-normalisation are written into the dicts of the
  order's own \<open>possible_outcomes\<close>. Here the order is the one the constructor builds with
  four outcomes, and the bonus is the 0.2 that \<^verbatim>\<open>prepare_order\<close> passes after a solved
  puzzle, in the arithmetic of the program: after the call the four probabilities of
  \<open>possible_outcomes\<close> are other numbers than before, and the one of the Poor outcome is
  negative.
\<close>

theorem collapse_state_changes_possible_outcomes:
  "\<exists>D' self'.
     collapse_state binary64 float_outcomes4 (example_order\<lparr>possible_outcomes := [0, 1, 2, 3]\<rparr>)
         (binary64 (1 / 5)) (1 / 2) = Inr (D', self') \<and>
     possible_outcomes self' = [0, 1, 2, 3] \<and> actual_outcome self' = Some 1 \<and>
     map probability float_outcomes4 =
       [4913017775313269 / 18014398509481984, 3275345183542179 / 9007199254740992,
        1228254443828317 / 4503599627370496, 3275345183542179 / 36028797018963968] \<and>
     map probability D' =
       [3548290615504027 / 9007199254740992, 8461308390817295 / 18014398509481984,
        5185963207275115 / 36028797018963968, - (8734253822779145 / 1152921504606846976)]"
  by (simp add: collapse_state_def float_outcomes4_def example_order_def Let_def
      binary64_values binary64_numeral binary64_values_bias4)

section \<open>KuantumKitchen: the timelines index\<close>

text \<open>
  C1. \<^verbatim>\<open>KuantumKitchen.update_time\<close> removes an expired order from \<open>active_orders\<close> and
  leaves it in \<open>timelines\<close> (\<^verbatim>\<open>deliver_order\<close> removes a delivered order from both), and a
  Timeline Shift rebuilds the index from \<open>timelines\<close>. In this run of a new kitchen the
  orders of day 1 are generated, the first is accepted (the index agrees with the active
  orders), and time passes three times, so that the order expires: no order is active
  and the index still holds the failed order. The Timeline Shift then gives the failed
  order timeline 2 and keeps it in the index.
\<close>

theorem expired_order_stays_in_timelines:
  "\<exists>k1 k2 k3 k4 k5 k6.
     generate_orders binary64 kitchen_init (\<lambda>_. example_draws) = Inr k1 \<and>
     accept_order k1 0 = ((True, Accepted_order 1234), k2) \<and>
     active_orders k2 = [0] \<and> timelines k2 = [(1, [0])] \<and> timelines_consistent k2 \<and>
     update_time binary64 k2 = (False, k3) \<and>
     update_time binary64 k3 = (False, k4) \<and>
     update_time binary64 k4 = (True, k5) \<and>
     state (orders k5 ! 0) = FAILED \<and> active_orders k5 = [] \<and> failed_orders k5 = [0] \<and>
     timelines k5 = [(1, [0])] \<and> \<not> timelines_consistent k5 \<and>
     trigger_special_event binary64 k5 shift_event = k6 \<and>
     state (orders k6 ! 0) = FAILED \<and> timeline (orders k6 ! 0) = 2 \<and>
     active_orders k6 = [] \<and> timelines k6 = [(2, [0])] \<and> \<not> timelines_consistent k6"
  by (simp add: kitchen_defs shift_event_def timelines_consistent_def numeral_3_eq_3)

end
